theory Spec2Isabelle
  imports Complex_Main "HOL-Library.Multiset"
begin

section \<open>JavaScript strings\<close>

text \<open>
  A JavaScript string is a sequence of UTF-16 code units. It is modelled as a \<open>string\<close>
  (a list of 8-bit characters) whose characters are read as the code units U+0000 to
  U+00FF. On that range \<open>toLowerCase\<close> maps A-Z and the Latin-1 capitals (U+00C0 to
  U+00DE without U+00D7) to the letter 32 places on, and \<open>trim\<close> removes TAB, LF, VT,
  FF, CR, SPACE and NO-BREAK SPACE from both ends.
\<close>

text \<open>
  The capital letters of the range. Each has bit 6 set and bit 5 clear (the codes 64 to
  95 and 192 to 223); its lower-case letter is 32 places on, which sets bit 5.
\<close>

definition upperChars :: string where
  "upperChars = ''ABCDEFGHIJKLMNOPQRSTUVWXYZ'' @
     [CHR 0xC0, CHR 0xC1, CHR 0xC2, CHR 0xC3, CHR 0xC4, CHR 0xC5, CHR 0xC6, CHR 0xC7,
      CHR 0xC8, CHR 0xC9, CHR 0xCA, CHR 0xCB, CHR 0xCC, CHR 0xCD, CHR 0xCE, CHR 0xCF,
      CHR 0xD0, CHR 0xD1, CHR 0xD2, CHR 0xD3, CHR 0xD4, CHR 0xD5, CHR 0xD6,
      CHR 0xD8, CHR 0xD9, CHR 0xDA, CHR 0xDB, CHR 0xDC, CHR 0xDD, CHR 0xDE]"

fun toLowerCase_char :: "char \<Rightarrow> char" where
  "toLowerCase_char (Char b0 b1 b2 b3 b4 b5 b6 b7) =
     (if b6
      then (if b5 then Char b0 b1 b2 b3 b4 b5 b6 b7
            else if Char b0 b1 b2 b3 b4 b5 b6 b7 \<in> set upperChars
                 then Char b0 b1 b2 b3 b4 True b6 b7
                 else Char b0 b1 b2 b3 b4 b5 b6 b7)
      else Char b0 b1 b2 b3 b4 b5 b6 b7)"

definition toLowerCase :: "string \<Rightarrow> string" where
  "toLowerCase s = map toLowerCase_char s"

definition isWhiteSpace :: "char \<Rightarrow> bool" where
  "isWhiteSpace c = (c \<in> set [CHR 0x09, CHR 0x0A, CHR 0x0B, CHR 0x0C, CHR 0x0D, CHR 0x20, CHR 0xA0])"

definition trim :: "string \<Rightarrow> string" where
  "trim s = rev (dropWhile isWhiteSpace (rev (dropWhile isWhiteSpace s)))"

definition startsWith :: "string \<Rightarrow> string \<Rightarrow> bool" where
  "startsWith s pat = (take (length pat) s = pat)"

definition endsWith :: "string \<Rightarrow> string \<Rightarrow> bool" where
  "endsWith s pat = (length pat \<le> length s \<and> drop (length s - length pat) s = pat)"

fun includes_str :: "string \<Rightarrow> string \<Rightarrow> bool" where
  "includes_str [] pat = (pat = [])"
| "includes_str (c # cs) pat = (startsWith (c # cs) pat \<or> includes_str cs pat)"

text \<open>\<open>s.split(sep)\<close> for a one-character separator: the empty string gives one empty piece.\<close>

fun split_on :: "char \<Rightarrow> string \<Rightarrow> string list" where
  "split_on sep [] = [[]]"
| "split_on sep (c # cs) =
     (if c = sep then [] # split_on sep cs
      else (case split_on sep cs of [] \<Rightarrow> [[c]] | p # ps \<Rightarrow> (c # p) # ps))"

text \<open>\<open>parts.join(sep)\<close>.\<close>

fun join :: "string \<Rightarrow> string list \<Rightarrow> string" where
  "join sep [] = []"
| "join sep [p] = p"
| "join sep (p # q # ps) = p @ sep @ join sep (q # ps)"

text \<open>
  \<open>s.replace(/^pat/, rep)\<close> for a literal pattern anchored at the start, case sensitive,
  and the same with the \<open>i\<close> flag (\<open>pat\<close> is given in lower case; an ASCII letter of the
  pattern matches its two cases only).
\<close>

definition replacePrefix :: "string \<Rightarrow> string \<Rightarrow> string \<Rightarrow> string" where
  "replacePrefix pat rep s = (if startsWith s pat then rep @ drop (length pat) s else s)"

fun startsWithCI :: "string \<Rightarrow> string \<Rightarrow> bool" where
  "startsWithCI s [] = True"
| "startsWithCI [] (p # ps) = False"
| "startsWithCI (c # cs) (p # ps) = (if toLowerCase_char c = p then startsWithCI cs ps else False)"

definition replacePrefixCI :: "string \<Rightarrow> string \<Rightarrow> string \<Rightarrow> string" where
  "replacePrefixCI pat rep s = (if startsWithCI s pat then rep @ drop (length pat) s else s)"

text \<open>\<open>s.replace(/pat/i, rep)\<close> without the \<open>g\<close> flag: the leftmost match only.\<close>

fun replaceFirstCI :: "string \<Rightarrow> string \<Rightarrow> string \<Rightarrow> string" where
  "replaceFirstCI pat rep [] = (if pat = [] then rep else [])"
| "replaceFirstCI pat rep (c # cs) =
     (if startsWithCI (c # cs) pat then rep @ drop (length pat) (c # cs)
      else c # replaceFirstCI pat rep cs)"

text \<open>Removing one trailing slash, as the replacement of a slash anchored at the end does.\<close>

definition stripTrailingSlash :: "string \<Rightarrow> string" where
  "stripTrailingSlash s = (if endsWith s ''/'' then take (length s - 1) s else s)"

section \<open>Canonicalizer: text and phone keys\<close>

definition normalizeText :: "string \<Rightarrow> string" where
  "normalizeText s = trim (toLowerCase s)"

definition isDigit :: "char \<Rightarrow> bool" where
  "isDigit c = (c \<in> set ''0123456789'')"

text \<open>Every character that is not a decimal digit is removed.\<close>

definition digits :: "string \<Rightarrow> string" where
  "digits s = filter isDigit s"

text \<open>\<open>d.slice(-10)\<close> starts at \<open>max (length d - 10) 0\<close>, which is the truncated difference.\<close>

definition last10 :: "string \<Rightarrow> string" where
  "last10 s = (let d = digits s in drop (length d - 10) d)"

section \<open>Canonicalizer: websites and facebook handles\<close>

text \<open>
  \<open>new URL(s)\<close> is the platform's URL parser, not code of this repository. It is a
  parameter of the model: a function that gives the parsed \<open>hostname\<close> and \<open>pathname\<close>,
  or \<open>None\<close> where the constructor throws. Every definition below that parses a URL takes
  this parser as its first argument, and the theorems hold for every such parser unless
  they name one.
\<close>

record url =
  hostname :: string
  pathname :: string

type_synonym url_parser = "string \<Rightarrow> url option"

text \<open>The scheme prefix \<open>http://\<close> or \<open>https://\<close>, with and without the \<open>i\<close> flag.\<close>

definition matchSchemeCI :: "string \<Rightarrow> string option" where
  "matchSchemeCI s =
     (if startsWithCI s ''https://'' then Some (drop 8 s)
      else if startsWithCI s ''http://'' then Some (drop 7 s)
      else None)"

definition stripScheme :: "string \<Rightarrow> string" where
  "stripScheme s =
     (if startsWith s ''https://'' then drop 8 s
      else if startsWith s ''http://'' then drop 7 s
      else s)"

definition preSanitizeUrl :: "string \<Rightarrow> string" where
  "preSanitizeUrl u =
     (let s = trim u;
          s = (case matchSchemeCI s of
                 None \<Rightarrow> s
               | Some r \<Rightarrow> (case matchSchemeCI r of None \<Rightarrow> s | Some r' \<Rightarrow> ''https://'' @ r'));
          s = replaceFirstCI ''://https//'' ''://'' s;
          s = replaceFirstCI ''://http//'' ''://'' s;
          s = replacePrefixCI ''https//'' ''https://'' s;
          s = replacePrefixCI ''http//'' ''http://'' s
      in s)"

text \<open>The argument given to the URL constructor: the default scheme is added when no \<open>://\<close> occurs.\<close>

definition withScheme :: "string \<Rightarrow> string" where
  "withScheme s = (if includes_str s ''://'' then s else ''https://'' @ s)"

definition canonicalUrl :: "url_parser \<Rightarrow> string \<Rightarrow> string" where
  "canonicalUrl URL u =
     (case URL (withScheme (preSanitizeUrl u)) of
        Some url \<Rightarrow>
          (let host = toLowerCase (hostname url);
               host = replacePrefix ''www.'' [] host;
               pathname = (if pathname url = [] then ''/'' else pathname url)
           in if pathname = ''/'' \<or> pathname = [] then host
              else host @ (if endsWith pathname ''/'' then take (length pathname - 1) pathname
                           else pathname))
      | None \<Rightarrow>
          stripTrailingSlash
            (replacePrefix ''http//'' []
              (replacePrefix ''https//'' []
                (replacePrefix ''www.'' []
                  (stripScheme (toLowerCase u))))))"

text \<open>Runs of characters that satisfy \<open>P\<close> are replaced by one copy of \<open>rep\<close> (a global replace of \<open>P+\<close>).\<close>

function replaceRuns :: "(char \<Rightarrow> bool) \<Rightarrow> string \<Rightarrow> string \<Rightarrow> string" where
  "replaceRuns P rep [] = []"
| "replaceRuns P rep (c # cs) =
     (if P c then rep @ replaceRuns P rep (dropWhile P cs) else c # replaceRuns P rep cs)"
  by pat_completeness auto
termination
  by (relation "measure (\<lambda>(P, rep, s). length s)") (auto simp: less_Suc_eq_le length_dropWhile_le)

text \<open>The first non-empty path segment, or the empty string.\<close>

definition firstSegment :: "string \<Rightarrow> string" where
  "firstSegment path =
     (case filter (\<lambda>x. x \<noteq> []) (split_on CHR ''/'' (replaceRuns (\<lambda>c. c = CHR ''/'') ''/'' path)) of
        [] \<Rightarrow> []
      | seg # _ \<Rightarrow> seg)"

definition canonicalFacebook :: "url_parser \<Rightarrow> string \<Rightarrow> string" where
  "canonicalFacebook URL u =
     (case URL (withScheme u) of
        Some url \<Rightarrow>
          (let host = toLowerCase (hostname url);
               host = replacePrefix ''m.'' [] host;
               host = replacePrefix ''www.'' [] host;
               host = (if host = ''fb.com'' then ''facebook.com'' else host)
           in if host \<noteq> ''facebook.com'' then canonicalUrl URL u
              else ''facebook.com/'' @ firstSegment (pathname url))
      | None \<Rightarrow>
          stripTrailingSlash
            (replacePrefix ''fb.com'' ''facebook.com''
              (replacePrefix ''m.'' []
                (replacePrefix ''www.'' []
                  (stripScheme (toLowerCase u))))))"

section \<open>Text utilities for fuzzy scoring\<close>

definition STOP :: "string list" where
  "STOP = [''inc'', ''inc.'', ''co'', ''co.'', ''llc'', ''ltd'', ''ltd.'', ''pty'', ''pty.'', ''plc'',
     ''corp'', ''corp.'', ''company'', ''companies'', ''gmbh'', ''srl'', ''sa'', ''bv'', ''nv'', ''llp'',
     ''pc'', ''p.c.'', ''lp'', ''pllc'', ''pte'', ''ag'', ''usa'', ''us'', ''the'', ''and'', ''&'']"

definition isLowerAlnum :: "char \<Rightarrow> bool" where
  "isLowerAlnum c = (c \<in> set ''abcdefghijklmnopqrstuvwxyz0123456789'')"

text \<open>The common tail of \<open>nameTokens\<close> and \<open>domainTokens\<close>.\<close>

definition tokenize :: "string \<Rightarrow> string list" where
  "tokenize s =
     filter (\<lambda>t. length t > 1 \<and> t \<notin> set STOP)
       (map trim
         (split_on CHR '' ''
           (replaceRuns (\<lambda>c. \<not> isLowerAlnum c) '' '' (toLowerCase s))))"

definition nameTokens :: "string \<Rightarrow> string list" where
  "nameTokens s = tokenize s"

text \<open>The two arrays are turned into sets; \<open>remdups\<close> keeps one copy of each token.\<close>

definition jaccard :: "string list \<Rightarrow> string list \<Rightarrow> rat" where
  "jaccard a b =
     (if a = [] \<or> b = [] then 0
      else (let A = remdups a; B = remdups b;
                inter = length (filter (\<lambda>x. x \<in> set B) A);
                union = length A + length B - inter
            in of_nat inter / of_nat union))"

definition extractHost :: "url_parser \<Rightarrow> string \<Rightarrow> string" where
  "extractHost URL u =
     (case URL (withScheme (preSanitizeUrl u)) of
        Some url \<Rightarrow> replacePrefix ''www.'' [] (toLowerCase (hostname url))
      | None \<Rightarrow>
          (case split_on CHR ''/'' (replacePrefix ''www.'' [] (stripScheme (toLowerCase u))) of
             [] \<Rightarrow> []
           | h # _ \<Rightarrow> h))"

definition COMMON_TLDS :: "string list" where
  "COMMON_TLDS = [''com'', ''org'', ''net'', ''io'', ''co'', ''us'', ''uk'', ''ca'', ''de'', ''fr'', ''au'',
     ''nz'', ''in'', ''info'', ''biz'', ''edu'', ''gov'', ''me'']"

definition domainTokens :: "string \<Rightarrow> string list" where
  "domainTokens host =
     (let parts = split_on CHR ''.'' host;
          parts = (if length parts > 1 \<and> last parts \<in> set COMMON_TLDS then butlast parts else parts);
          core = join ''.'' parts
      in tokenize core)"

text \<open>
  The edit-distance table \<open>dp\<close> of \<open>levenshteinRatio\<close>: \<open>m + 1\<close> rows of \<open>n + 1\<close> zeros,
  the first column and the first row set, then the cells filled row by row.
\<close>

definition set2 :: "nat list list \<Rightarrow> nat \<Rightarrow> nat \<Rightarrow> nat \<Rightarrow> nat list list" where
  "set2 dp i j v = dp[i := (dp ! i)[j := v]]"

definition lev_cell :: "string \<Rightarrow> string \<Rightarrow> nat \<Rightarrow> nat \<Rightarrow> nat list list \<Rightarrow> nat list list" where
  "lev_cell a b i j dp =
     (let cost = (if a ! (i - 1) = b ! (j - 1) then 0 else 1)
      in set2 dp i j
           (min (dp ! (i - 1) ! j + 1)
                (min (dp ! i ! (j - 1) + 1) (dp ! (i - 1) ! (j - 1) + cost))))"

definition lev_table :: "string \<Rightarrow> string \<Rightarrow> nat list list" where
  "lev_table a b =
     (let m = length a; n = length b;
          dp = replicate (m + 1) (replicate (n + 1) 0);
          dp = fold (\<lambda>i dp. set2 dp i 0 i) [0..<m + 1] dp;
          dp = fold (\<lambda>j dp. set2 dp 0 j j) [0..<n + 1] dp
      in fold (\<lambda>i dp. fold (\<lambda>j dp. lev_cell a b i j dp) [1..<n + 1] dp) [1..<m + 1] dp)"

definition levenshteinRatio :: "string \<Rightarrow> string \<Rightarrow> rat" where
  "levenshteinRatio a b =
     (let m = length a; n = length b
      in if m = 0 \<and> n = 0 then 1
         else (let dist = lev_table a b ! m ! n; maxLen = max m n
               in if maxLen \<noteq> 0 then 1 - of_nat dist / of_nat maxLen else 1))"

section \<open>Catalog records and the feature builder\<close>

text \<open>
  \<open>CompanyProfile\<close>: an optional field is an \<open>option\<close>; \<open>social_facebook\<close> is
  \<open>social?.facebook\<close> (the other networks are not read by the matcher).
\<close>

record Profile =
  website :: string
  name :: "string option"
  phones :: "string list option"
  social_facebook :: "string list option"
  address :: "string option"

text \<open>\<open>AugProfile\<close>: the profile with its precomputed fields; a \<open>Set\<close> is a list without repetition.\<close>

record AugProfile = Profile +
  aug_id :: nat
  aug_canonSite :: string
  aug_host :: string
  aug_domainTokens :: "string list"
  aug_nameNorm :: string
  aug_nameTokens :: "string list"
  aug_last10Phones :: "string list"
  aug_fbHandles :: "string list"

text \<open>The truth value of an optional string: absent and empty are both false.\<close>

definition truthy :: "string option \<Rightarrow> bool" where
  "truthy x = (case x of None \<Rightarrow> False | Some s \<Rightarrow> s \<noteq> [])"

definition orEmpty :: "string option \<Rightarrow> string" where
  "orEmpty x = (case x of None \<Rightarrow> [] | Some s \<Rightarrow> s)"

definition orNil :: "'a list option \<Rightarrow> 'a list" where
  "orNil x = (case x of None \<Rightarrow> [] | Some xs \<Rightarrow> xs)"

text \<open>\<open>new Set(xs)\<close>: the first occurrence of each element, in order.\<close>

definition newSet :: "'a list \<Rightarrow> 'a list" where
  "newSet xs = rev (remdups (rev xs))"

definition augment :: "url_parser \<Rightarrow> nat \<Rightarrow> Profile \<Rightarrow> AugProfile" where
  "augment URL i p =
     (let canonSite = canonicalUrl URL (website p);
          host = extractHost URL (website p);
          domTokens = (if host \<noteq> [] then domainTokens host else []);
          nameNorm = (if truthy (name p) then normalizeText (orEmpty (name p)) else []);
          nmTokens = (if nameNorm \<noteq> [] then nameTokens nameNorm else []);
          last10Phones = newSet (filter (\<lambda>k. k \<noteq> []) (map last10 (orNil (phones p))));
          fbHandles = newSet (filter (\<lambda>k. k \<noteq> []) (map (canonicalFacebook URL) (orNil (social_facebook p))))
      in Profile.extend p
           (AugProfile.fields i canonSite host domTokens nameNorm nmTokens last10Phones fbHandles))"

text \<open>The lookup maps \<open>Map<string, number[]>\<close> and \<open>addToIndex\<close>.\<close>

type_synonym index_map = "string \<rightharpoonup> nat list"

definition addToIndex :: "index_map \<Rightarrow> string \<Rightarrow> nat \<Rightarrow> index_map" where
  "addToIndex m k idx =
     (if k = [] then m
      else (case m k of Some arr \<Rightarrow> m(k \<mapsto> arr @ [idx]) | None \<Rightarrow> m(k \<mapsto> [idx])))"

record Maps =
  byCanonSite :: index_map
  byPhone10 :: index_map
  byFacebook :: index_map
  byDomainToken :: index_map

definition indexProfile :: "Maps \<Rightarrow> AugProfile \<Rightarrow> Maps" where
  "indexProfile maps c =
     (let i = aug_id c
      in \<lparr> byCanonSite = addToIndex (byCanonSite maps) (aug_canonSite c) i,
           byPhone10 = fold (\<lambda>ph m. addToIndex m ph i) (aug_last10Phones c) (byPhone10 maps),
           byFacebook = fold (\<lambda>fb m. addToIndex m fb i) (aug_fbHandles c) (byFacebook maps),
           byDomainToken = fold (\<lambda>t m. addToIndex m t i) (aug_domainTokens c) (byDomainToken maps) \<rparr>)"

definition loadProfiles :: "url_parser \<Rightarrow> Profile list \<Rightarrow> AugProfile list" where
  "loadProfiles URL baseProfiles = map (\<lambda>(i, p). augment URL i p) (enumerate 0 baseProfiles)"

definition loadMaps :: "AugProfile list \<Rightarrow> Maps" where
  "loadMaps profiles =
     fold (\<lambda>c maps. indexProfile maps c) profiles
       \<lparr> byCanonSite = Map.empty, byPhone10 = Map.empty, byFacebook = Map.empty,
         byDomainToken = Map.empty \<rparr>"

section \<open>The exported scorer\<close>


definition jaccardPoints :: "rat \<Rightarrow> rat" where
  "jaccardPoints j =
     (if j \<ge> 8 / 10 then 2 else if j \<ge> 5 / 10 then 3 / 2 else if j \<ge> 3 / 10 then 1
      else if j \<ge> 25 / 100 then 1 / 2 else 0)"

definition levPoints :: "rat \<Rightarrow> rat" where
  "levPoints lev = (if lev \<ge> 9 / 10 then 3 / 2 else if lev \<ge> 8 / 10 then 1 else 0)"

definition domainPoints :: "rat \<Rightarrow> rat" where
  "domainPoints jw =
     (if jw \<ge> 8 / 10 then 2 else if jw \<ge> 6 / 10 then 3 / 2 else if jw \<ge> 4 / 10 then 1
      else if jw \<ge> 25 / 100 then 1 / 2 else 0)"


section \<open>The match endpoint\<close>

subsection \<open>Request, engine state and response\<close>

text \<open>
  A JavaScript number read from the request (\<open>Number(body.page)\<close> and the like) is a
  finite value, \<open>NaN\<close> or an infinity; finite values are rationals. The conversion of a
  string into a number is not modelled: a numeric field holds the number itself.
\<close>

datatype jsnum = Num rat | NaN | PosInf | NegInf

datatype sortKey = SortScore | SortName | SortWebsite

datatype dir = Asc | Desc

datatype error = BadRequest | TypeError

record Body =
  b_name :: "string option"
  b_website :: "string option"
  b_phone :: "string option"
  b_facebook :: "string option"
  b_page :: "jsnum option"
  b_perPage :: "jsnum option"
  b_sort :: "sortKey option"
  b_dir :: "dir option"
  b_minScore :: "jsnum option"
  b_contains :: "string option"

text \<open>A hit of a Fuse search: the position of the item and the distance, when it is included.\<close>

record FuseHit =
  refIndex :: nat
  hit_score :: "rat option"

record NameHit =
  nh_website :: string
  nh_name :: string
  nh_score :: "rat option"

text \<open>
  The state built at start-up. The text engines (MiniSearch, Fuse) are libraries: each is
  the function from a query to its ordered hits. \<open>localeCompare\<close> is the platform's string
  comparison. The two caps are the configured counts.
\<close>

record Engine =
  env_URL :: url_parser
  miniSearch :: "string \<Rightarrow> nat list"
  fuzzyIndex :: "string \<Rightarrow> FuseHit list"
  fuzzyIndexLoose :: "string \<Rightarrow> FuseHit list"
  namesFuse :: "string \<Rightarrow> NameHit list"
  localeCompare :: "string \<Rightarrow> string \<Rightarrow> int"
  MAX_CANDIDATES :: nat
  MAX_BRUTE_FORCE :: nat
  profiles :: "AugProfile list"
  maps :: Maps

record Scored =
  idx :: nat
  profile :: "Profile option"
  score :: rat

record Meta =
  total :: nat
  totalPages :: nat
  page :: rat
  perPage :: rat

record Response =
  best :: "Profile option"
  candidates :: "Scored list"
  meta :: Meta

text \<open>\<open>loadIndexFrom\<close>: the augmented profiles and the lookup maps of a catalog.\<close>

definition loadIndexFrom :: "url_parser \<Rightarrow> Profile list \<Rightarrow> AugProfile list \<times> Maps" where
  "loadIndexFrom URL baseProfiles =
     (let ps = loadProfiles URL baseProfiles in (ps, loadMaps ps))"

text \<open>
  The request schema on the text fields: each is trimmed and then limited in length.
\<close>

definition limitStr :: "nat \<Rightarrow> string option \<Rightarrow> error + string option" where
  "limitStr mx x =
     (case x of
        None \<Rightarrow> Inr None
      | Some s \<Rightarrow> if length (trim s) \<le> mx then Inr (Some (trim s)) else Inl BadRequest)"

definition QuerySchema :: "Body \<Rightarrow> error + Body" where
  "QuerySchema raw =
     (case (limitStr 256 (b_name raw), limitStr 2048 (b_website raw), limitStr 64 (b_phone raw),
            limitStr 2048 (b_facebook raw), limitStr 256 (b_contains raw)) of
        (Inr n, Inr w, Inr p, Inr f, Inr c) \<Rightarrow>
          Inr (raw\<lparr> b_name := n, b_website := w, b_phone := p, b_facebook := f, b_contains := c \<rparr>)
      | _ \<Rightarrow> Inl BadRequest)"

subsection \<open>Candidate discovery\<close>

text \<open>\<open>candidates\<close> is a \<open>Set\<close> of positions: insertion order is kept, a member is not added again.\<close>

definition addAll :: "nat list \<Rightarrow> nat list \<Rightarrow> nat list" where
  "addAll cand ids = fold (\<lambda>i c. if i \<in> set c then c else c @ [i]) ids cand"

definition lookupIds :: "index_map \<Rightarrow> string \<Rightarrow> nat list" where
  "lookupIds m k = (case m k of None \<Rightarrow> [] | Some ids \<Rightarrow> ids)"

text \<open>A split at runs of separator characters (a split at the regular expression \<open>P+\<close>).\<close>

function splitRuns :: "(char \<Rightarrow> bool) \<Rightarrow> string \<Rightarrow> string list" where
  "splitRuns P [] = [[]]"
| "splitRuns P (c # cs) =
     (if P c then [] # splitRuns P (dropWhile P cs)
      else (case splitRuns P cs of [] \<Rightarrow> [[c]] | p # ps \<Rightarrow> (c # p) # ps))"
  by pat_completeness auto
termination
  by (relation "measure (\<lambda>(P, s). length s)") (auto simp: less_Suc_eq_le length_dropWhile_le)

definition queryText :: "Body \<Rightarrow> string" where
  "queryText body =
     join '' '' (map orEmpty (filter truthy [b_name body, b_website body, b_phone body, b_facebook body]))"

definition anyField :: "Body \<Rightarrow> bool" where
  "anyField body =
     (truthy (b_name body) \<or> truthy (b_website body) \<or> truthy (b_phone body) \<or> truthy (b_facebook body))"

definition nameCandidates :: "Engine \<Rightarrow> string \<Rightarrow> nat list \<Rightarrow> nat list" where
  "nameCandidates env nm cand =
     (let cand = addAll cand (miniSearch env nm)
      in fold (\<lambda>tok c. addAll c (miniSearch env tok)) (nameTokens nm) cand)"

definition websiteCandidates :: "Engine \<Rightarrow> string \<Rightarrow> nat list \<Rightarrow> nat list" where
  "websiteCandidates env w cand =
     (let cand = addAll cand (miniSearch env w);
          want = canonicalUrl (env_URL env) w;
          cand = addAll cand (lookupIds (byCanonSite (maps env)) want);
          host = extractHost (env_URL env) w;
          toks = domainTokens host
      in fold (\<lambda>tok c. addAll (addAll c (lookupIds (byDomainToken (maps env)) tok)) (miniSearch env tok))
           toks cand)"

definition phoneCandidates :: "Engine \<Rightarrow> string \<Rightarrow> nat list \<Rightarrow> nat list" where
  "phoneCandidates env ph cand = addAll cand (lookupIds (byPhone10 (maps env)) (last10 ph))"

definition facebookCandidates :: "Engine \<Rightarrow> string \<Rightarrow> nat list \<Rightarrow> nat list" where
  "facebookCandidates env fb cand =
     (let wantFb = canonicalFacebook (env_URL env) fb;
          cand = addAll cand (lookupIds (byFacebook (maps env)) wantFb)
      in (case env_URL env fb of
            None \<Rightarrow> cand
          | Some url \<Rightarrow>
              (let h = (case filter (\<lambda>x. x \<noteq> []) (split_on CHR ''/'' (pathname url)) of
                          [] \<Rightarrow> [] | seg # _ \<Rightarrow> seg);
                   toks = filter (\<lambda>x. length x > 2) (splitRuns (\<lambda>c. c \<in> set ''._-'') h)
               in fold (\<lambda>tok c. addAll c (miniSearch env tok)) toks cand)))"

definition gatherCandidates :: "Engine \<Rightarrow> Body \<Rightarrow> nat list" where
  "gatherCandidates env body =
     (let cand = [];
          cand = (if truthy (b_name body) then nameCandidates env (orEmpty (b_name body)) cand else cand);
          cand = (if truthy (b_website body) then websiteCandidates env (orEmpty (b_website body)) cand
                  else cand);
          cand = (if truthy (b_phone body) then phoneCandidates env (orEmpty (b_phone body)) cand else cand);
          cand = (if truthy (b_facebook body) then facebookCandidates env (orEmpty (b_facebook body)) cand
                  else cand);
          cand = (if cand = [] \<and> anyField body
                  then addAll cand (map refIndex (take 20 (fuzzyIndex env (queryText body))))
                  else cand);
          cand = (if length cand > MAX_CANDIDATES env then take (MAX_CANDIDATES env) cand else cand)
      in cand)"

subsection \<open>The fast scorer\<close>

record Pre =
  pre_canonSite :: string
  pre_host :: string
  pre_domainTokens :: "string list"
  pre_nameNorm :: string
  pre_nameTokens :: "string list"
  pre_phone10 :: string
  pre_fbHandle :: string

definition precompute :: "url_parser \<Rightarrow> Body \<Rightarrow> Pre" where
  "precompute URL body =
     \<lparr> pre_canonSite = (if truthy (b_website body) then canonicalUrl URL (orEmpty (b_website body)) else []),
       pre_host = (if truthy (b_website body) then extractHost URL (orEmpty (b_website body)) else []),
       pre_domainTokens = (if truthy (b_website body)
                           then domainTokens (extractHost URL (orEmpty (b_website body))) else []),
       pre_nameNorm = (if truthy (b_name body) then normalizeText (orEmpty (b_name body)) else []),
       pre_nameTokens = (if truthy (b_name body)
                         then nameTokens (normalizeText (orEmpty (b_name body))) else []),
       pre_phone10 = (if truthy (b_phone body) then last10 (orEmpty (b_phone body)) else []),
       pre_fbHandle = (if truthy (b_facebook body)
                       then canonicalFacebook URL (orEmpty (b_facebook body)) else []) \<rparr>"

definition fastScore :: "Pre \<Rightarrow> AugProfile \<Rightarrow> rat" where
  "fastScore pre c =
     (let score = 0;
          score = (if pre_canonSite pre \<noteq> [] \<and> pre_canonSite pre = aug_canonSite c then score + 5
                   else score);
          score =
            (if pre_nameNorm pre \<noteq> [] \<and> aug_nameNorm c \<noteq> []
             then (if pre_nameNorm pre = aug_nameNorm c then score + 3
                   else score + jaccardPoints (jaccard (pre_nameTokens pre) (aug_nameTokens c))
                              + levPoints (levenshteinRatio (pre_nameNorm pre) (aug_nameNorm c)))
             else score);
          score =
            (if pre_domainTokens pre \<noteq> [] \<and> aug_domainTokens c \<noteq> []
             then score + domainPoints (jaccard (pre_domainTokens pre) (aug_domainTokens c))
             else score);
          score = (if pre_phone10 pre \<noteq> [] \<and> pre_phone10 pre \<in> set (aug_last10Phones c) then score + 3
                   else score);
          score = (if pre_fbHandle pre \<noteq> [] \<and> pre_fbHandle pre \<in> set (aug_fbHandles c) then score + 4
                   else score)
      in score)"


subsection \<open>Scoring and the fallback cascade\<close>

text \<open>
  \<open>profiles[i]\<close> is undefined outside the catalog; reading a field of it throws, which is
  the result \<open>TypeError\<close>.
\<close>

definition profileAt :: "AugProfile list \<Rightarrow> nat \<Rightarrow> AugProfile option" where
  "profileAt ps i = (if i < length ps then Some (ps ! i) else None)"

definition scoredAt :: "Pre \<Rightarrow> nat \<Rightarrow> AugProfile \<Rightarrow> Scored" where
  "scoredAt pre i c = \<lparr> idx = i, profile = Some (Profile.truncate c), score = fastScore pre c \<rparr>"

fun scoreAll :: "Pre \<Rightarrow> AugProfile list \<Rightarrow> nat list \<Rightarrow> error + Scored list" where
  "scoreAll pre ps [] = Inr []"
| "scoreAll pre ps (i # is) =
     (case profileAt ps i of
        None \<Rightarrow> Inl TypeError
      | Some c \<Rightarrow> (case scoreAll pre ps is of Inl e \<Rightarrow> Inl e | Inr rest \<Rightarrow> Inr (scoredAt pre i c # rest)))"

text \<open>
  \<open>Array.prototype.sort\<close> with a comparison function is stable: an element goes before
  the first element of the sorted rest that it does not have to follow.
\<close>

fun insertBy :: "('a \<Rightarrow> 'a \<Rightarrow> rat) \<Rightarrow> 'a \<Rightarrow> 'a list \<Rightarrow> 'a list" where
  "insertBy cmp x [] = [x]"
| "insertBy cmp x (y # ys) = (if cmp x y \<le> 0 then x # y # ys else y # insertBy cmp x ys)"

definition sortBy :: "('a \<Rightarrow> 'a \<Rightarrow> rat) \<Rightarrow> 'a list \<Rightarrow> 'a list" where
  "sortBy cmp xs = foldr (insertBy cmp) xs []"

text \<open>The distance of a hit, \<open>r.score ?? 1\<close>.\<close>

definition rawDistance :: "FuseHit \<Rightarrow> rat" where
  "rawDistance r = (case hit_score r of None \<Rightarrow> 1 | Some d \<Rightarrow> d)"

definition fuseScored :: "AugProfile list \<Rightarrow> FuseHit \<Rightarrow> Scored" where
  "fuseScored ps r =
     \<lparr> idx = refIndex r,
       profile = map_option Profile.truncate (profileAt ps (refIndex r)),
       score = max (1 / 10) ((1 - rawDistance r) * (1 / 2)) \<rparr>"

text \<open>The sample of the brute-force branch: positions \<open>0, step, 2 * step, ...\<close> below \<open>N\<close>, at most \<open>cap\<close>.\<close>

function strided :: "nat \<Rightarrow> nat \<Rightarrow> nat \<Rightarrow> nat \<Rightarrow> nat list \<Rightarrow> nat list" where
  "strided i step N cap sample =
     (if i < N \<and> length sample < cap then strided (i + step) step N cap (sample @ [i]) else sample)"
  by pat_completeness auto
termination
  by (relation "measure (\<lambda>(i, step, N, cap, sample). cap - length sample)") auto

declare strided.simps [simp del]

definition bruteForce :: "Pre \<Rightarrow> Engine \<Rightarrow> Scored list" where
  "bruteForce pre env =
     (let N = length (profiles env);
          cap = min (MAX_BRUTE_FORCE env) N
      in if N > cap
         then (let step = max 1 (N div cap);
                   sample = strided 0 step N cap []
               in take 10 (sortBy (\<lambda>a b. score b - score a)
                    (map (\<lambda>i. scoredAt pre i (profiles env ! i)) sample)))
         else take 10 (sortBy (\<lambda>a b. score b - score a)
                (map (\<lambda>(i, p). scoredAt pre i p) (enumerate 0 (profiles env)))))"

text \<open>The hits of the safety net: the strict index first, the loose one when it finds nothing.\<close>

definition fuseRes :: "Engine \<Rightarrow> string \<Rightarrow> FuseHit list" where
  "fuseRes env q =
     (let res = take 10 (fuzzyIndex env q)
      in if res = [] then take 10 (fuzzyIndexLoose env q) else res)"

definition safetyNet :: "Pre \<Rightarrow> Engine \<Rightarrow> Body \<Rightarrow> Scored list \<Rightarrow> Scored list" where
  "safetyNet pre env body scored =
     (if (scored = [] \<or> list_all (\<lambda>s. score s = 0) scored) \<and> anyField body
      then (let q = queryText body
            in if fuseRes env q \<noteq> [] then map (fuseScored (profiles env)) (fuseRes env q)
               else bruteForce pre env)
      else scored)"

subsection \<open>Ranker and paginator\<close>

text \<open>\<open>Number(x ?? d) || d\<close>: the default replaces an absent field, \<open>NaN\<close> and zero.\<close>

definition orDefault :: "jsnum option \<Rightarrow> rat \<Rightarrow> jsnum" where
  "orDefault x d =
     (case x of None \<Rightarrow> Num d | Some v \<Rightarrow> if v = NaN \<or> v = Num 0 then Num d else v)"

fun jsMax :: "jsnum \<Rightarrow> jsnum \<Rightarrow> jsnum" where
  "jsMax NaN _ = NaN"
| "jsMax _ NaN = NaN"
| "jsMax PosInf _ = PosInf"
| "jsMax _ PosInf = PosInf"
| "jsMax NegInf y = y"
| "jsMax x NegInf = x"
| "jsMax (Num a) (Num b) = Num (max a b)"

fun jsMin :: "jsnum \<Rightarrow> jsnum \<Rightarrow> jsnum" where
  "jsMin NaN _ = NaN"
| "jsMin _ NaN = NaN"
| "jsMin NegInf _ = NegInf"
| "jsMin _ NegInf = NegInf"
| "jsMin PosInf y = y"
| "jsMin x PosInf = x"
| "jsMin (Num a) (Num b) = Num (min a b)"

definition pageOf :: "Body \<Rightarrow> jsnum" where
  "pageOf body = jsMax (Num 1) (orDefault (b_page body) 1)"

definition perPageOf :: "Body \<Rightarrow> jsnum" where
  "perPageOf body = jsMin (Num 50) (jsMax (Num 5) (orDefault (b_perPage body) 10))"

definition minScoreOf :: "Body \<Rightarrow> jsnum" where
  "minScoreOf body = orDefault (b_minScore body) 0"

definition containsOf :: "Body \<Rightarrow> string" where
  "containsOf body = trim (toLowerCase (orEmpty (b_contains body)))"

text \<open>The finite value of a number that is known to be finite (\<open>perPage\<close>, the clamped page).\<close>

definition finite_of :: "jsnum \<Rightarrow> rat" where
  "finite_of v = (case v of Num r \<Rightarrow> r | _ \<Rightarrow> 0)"

definition scoreAtLeast :: "rat \<Rightarrow> jsnum \<Rightarrow> bool" where
  "scoreAtLeast x v = (case v of Num r \<Rightarrow> x \<ge> r | NegInf \<Rightarrow> True | _ \<Rightarrow> False)"

definition isPositive :: "jsnum \<Rightarrow> bool" where
  "isPositive v = (case v of Num r \<Rightarrow> r > 0 | PosInf \<Rightarrow> True | _ \<Rightarrow> False)"

definition profileName :: "Scored \<Rightarrow> string" where
  "profileName s = (case profile s of None \<Rightarrow> [] | Some p \<Rightarrow> orEmpty (name p))"

definition profileWebsite :: "Scored \<Rightarrow> string" where
  "profileWebsite s = (case profile s of None \<Rightarrow> [] | Some p \<Rightarrow> website p)"

text \<open>
  The two filters. The substring filter reads \<open>s.profile.name\<close> of every entry, which
  throws on an entry without profile.
\<close>

definition applyFilters :: "Body \<Rightarrow> Scored list \<Rightarrow> error + Scored list" where
  "applyFilters body scored =
     (let list = scored;
          list = (if isPositive (minScoreOf body)
                  then filter (\<lambda>s. scoreAtLeast (score s) (minScoreOf body)) list else list)
      in if containsOf body \<noteq> []
         then (if list_ex (\<lambda>s. profile s = None) list then Inl TypeError
               else Inr (filter (\<lambda>s. includes_str (toLowerCase (profileName s)) (containsOf body)
                                   \<or> includes_str (toLowerCase (profileWebsite s)) (containsOf body)) list))
         else Inr list)"

definition sortKeyOf :: "Body \<Rightarrow> sortKey" where
  "sortKeyOf body = (case b_sort body of None \<Rightarrow> SortScore | Some k \<Rightarrow> k)"

definition dirOf :: "Body \<Rightarrow> dir" where
  "dirOf body = (case b_dir body of None \<Rightarrow> Desc | Some d \<Rightarrow> d)"

definition compareScored :: "Engine \<Rightarrow> sortKey \<Rightarrow> dir \<Rightarrow> Scored \<Rightarrow> Scored \<Rightarrow> rat" where
  "compareScored env k d a b =
     (let mul = (if d = Asc then 1 else - 1)
      in (case k of
            SortName \<Rightarrow> mul * of_int (localeCompare env (profileName a) (profileName b))
          | SortWebsite \<Rightarrow> mul * of_int (localeCompare env (profileWebsite a) (profileWebsite b))
          | SortScore \<Rightarrow> mul * (score a - score b)))"

text \<open>
  The sort. With the keys \<open>name\<close> and \<open>website\<close> the comparison reads the profile of
  both arguments; it is called as soon as the list has two entries.
\<close>

definition sortList :: "Engine \<Rightarrow> Body \<Rightarrow> Scored list \<Rightarrow> error + Scored list" where
  "sortList env body list =
     (if sortKeyOf body \<noteq> SortScore \<and> length list \<ge> 2 \<and> list_ex (\<lambda>s. profile s = None) list
      then Inl TypeError
      else Inr (sortBy (compareScored env (sortKeyOf body) (dirOf body)) list))"

definition nameStub :: "nat \<times> NameHit \<Rightarrow> Scored" where
  "nameStub ir =
     (case ir of (i, r) \<Rightarrow>
        \<lparr> idx = i,
          profile = Some \<lparr> website = nh_website r, name = Some (nh_name r), phones = Some [],
                           social_facebook = None, address = None \<rparr>,
          score = max (1 / 10) ((1 - (case nh_score r of None \<Rightarrow> 1 | Some d \<Rightarrow> d)) * (4 / 10)) \<rparr>)"

definition namesFallback :: "Engine \<Rightarrow> Body \<Rightarrow> Scored list \<Rightarrow> Scored list \<Rightarrow> Scored list" where
  "namesFallback env body scored list =
     (if scored = []
      then (let nf = take 10 (namesFuse env (queryText body))
            in if nf \<noteq> [] then map nameStub (enumerate 0 nf) else list)
      else list)"

text \<open>
  \<open>list.slice(start, end)\<close> with non-negative bounds: both are truncated to integers and
  limited by the length.
\<close>

definition slice :: "'a list \<Rightarrow> rat \<Rightarrow> rat \<Rightarrow> 'a list" where
  "slice xs start stop = (let s = nat \<lfloor>start\<rfloor>; e = nat \<lfloor>stop\<rfloor> in take (e - s) (drop s xs))"

definition totalPagesOf :: "nat \<Rightarrow> rat \<Rightarrow> nat" where
  "totalPagesOf n pp = max 1 (nat \<lceil>of_nat n / pp\<rceil>)"

definition pageClampedOf :: "jsnum \<Rightarrow> nat \<Rightarrow> rat" where
  "pageClampedOf pg tp = finite_of (jsMin pg (Num (of_nat tp)))"

definition pageSlice :: "Scored list \<Rightarrow> rat \<Rightarrow> rat \<Rightarrow> Scored list" where
  "pageSlice list pg pp = (let start = (pg - 1) * pp in slice list start (start + pp))"

definition paginate :: "Body \<Rightarrow> Scored list \<Rightarrow> Response" where
  "paginate body list =
     (let pp = finite_of (perPageOf body);
          n = length list;
          tp = totalPagesOf n pp;
          pageClamped = pageClampedOf (pageOf body) tp
      in \<lparr> best = (case list of [] \<Rightarrow> None | s # _ \<Rightarrow> profile s),
           candidates = pageSlice list pageClamped pp,
           meta = \<lparr> total = n, totalPages = tp, page = pageClamped, perPage = pp \<rparr> \<rparr>)"

subsection \<open>The handler\<close>

text \<open>
  \<open>POST /match\<close> for a JSON request: schema, rejection of the empty query, candidate
  discovery, scoring, fallback cascade, filters, sort, names fallback, pagination.
  (Rate limiting and the CSRF check of form posts are transport and are left out.)
\<close>

definition matchBody :: "Engine \<Rightarrow> Body \<Rightarrow> error + Response" where
  "matchBody env body =
     (if \<not> anyField body then Inl BadRequest
      else (let cand = gatherCandidates env body;
                pre = precompute (env_URL env) body
            in (case scoreAll pre (profiles env) cand of
                  Inl e \<Rightarrow> Inl e
                | Inr scored0 \<Rightarrow>
                    (let scored = safetyNet pre env body scored0
                     in (case applyFilters body scored of
                           Inl e \<Rightarrow> Inl e
                         | Inr filtered \<Rightarrow>
                             (case sortList env body filtered of
                                Inl e \<Rightarrow> Inl e
                              | Inr ordered \<Rightarrow>
                                  Inr (paginate body (namesFallback env body scored ordered))))))))"

definition match :: "Engine \<Rightarrow> Body \<Rightarrow> error + Response" where
  "match env raw = (case QuerySchema raw of Inl e \<Rightarrow> Inl e | Inr body \<Rightarrow> matchBody env body)"

section \<open>The URL parser on plain web addresses\<close>

text \<open>
  What the platform's parser (the WHATWG URL standard) returns on a plain address:
  the scheme \<open>http://\<close> or \<open>https://\<close>, a host of lower-case letters, digits, hyphens
  and dots whose last label begins with a letter (so that it is not read as an IPv4
  address) and that has no punycode label, and a path of unreserved characters and
  slashes without dot segments. There the host is returned as it is and the path as it
  is, \<open>/\<close> when it is empty. \<open>plainURL\<close> gives \<open>None\<close> on every other input; it stands
  for the platform's parser on plain addresses only, and is used for closed examples.
\<close>

definition isLowerAlpha :: "char \<Rightarrow> bool" where
  "isLowerAlpha c = (c \<in> set ''abcdefghijklmnopqrstuvwxyz'')"

definition isHostChar :: "char \<Rightarrow> bool" where
  "isHostChar c = (isLowerAlnum c \<or> c = CHR ''-'' \<or> c = CHR ''.'')"

definition isUnreserved :: "char \<Rightarrow> bool" where
  "isUnreserved c =
     (c \<in> set ''abcdefghijklmnopqrstuvwxyzABCDEFGHIJKLMNOPQRSTUVWXYZ0123456789-_.~'')"

definition plainHost :: "string \<Rightarrow> bool" where
  "plainHost h =
     (h \<noteq> [] \<and> list_all isHostChar h \<and> \<not> includes_str h ''xn--''
      \<and> (case last (split_on CHR ''.'' h) of [] \<Rightarrow> False | c # _ \<Rightarrow> isLowerAlpha c))"

definition plainPath :: "string \<Rightarrow> bool" where
  "plainPath p =
     (list_all (\<lambda>c. isUnreserved c \<or> c = CHR ''/'') p
      \<and> list_all (\<lambda>seg. seg \<noteq> ''.'' \<and> seg \<noteq> ''..'') (split_on CHR ''/'' p))"

definition plainURL :: url_parser where
  "plainURL s =
     (if startsWith s ''https://'' \<or> startsWith s ''http://''
      then (let r = (if startsWith s ''https://'' then drop 8 s else drop 7 s);
                h = takeWhile (\<lambda>c. c \<noteq> CHR ''/'') r;
                p = dropWhile (\<lambda>c. c \<noteq> CHR ''/'') r
            in if plainHost h \<and> plainPath p
               then Some \<lparr> hostname = h, pathname = (if p = [] then ''/'' else p) \<rparr>
               else None)
      else None)"

text \<open>A parser agrees with the platform on plain addresses.\<close>

definition parsesPlain :: "url_parser \<Rightarrow> bool" where
  "parsesPlain URL = (\<forall>s. plainURL s \<noteq> None \<longrightarrow> URL s = plainURL s)"

section \<open>Example requests and catalogs\<close>

definition emptyBody :: Body where
  "emptyBody =
     \<lparr> b_name = None, b_website = None, b_phone = None, b_facebook = None, b_page = None,
       b_perPage = None, b_sort = None, b_dir = None, b_minScore = None, b_contains = None \<rparr>"

definition phoneBody :: "string \<Rightarrow> Body" where
  "phoneBody raw = emptyBody\<lparr> b_phone := Some raw \<rparr>"

definition nameBody :: "string \<Rightarrow> Body" where
  "nameBody raw = emptyBody\<lparr> b_name := Some raw \<rparr>"

definition websiteBody :: "string \<Rightarrow> Body" where
  "websiteBody raw = emptyBody\<lparr> b_website := Some raw \<rparr>"

definition siteProfile :: "string \<Rightarrow> Profile" where
  "siteProfile w =
     \<lparr> website = w, name = None, phones = None, social_facebook = None, address = None \<rparr>"

text \<open>A record whose only phone has seven digits.\<close>

definition shortPhoneProfile :: Profile where
  "shortPhoneProfile = (siteProfile ''https://acme.com'')\<lparr> phones := Some [''555-1212''] \<rparr>"

text \<open>An engine over a catalog with text engines that find nothing.\<close>

definition silentEngine :: "Profile list \<Rightarrow> Engine" where
  "silentEngine cat =
     \<lparr> env_URL = plainURL, miniSearch = (\<lambda>q. []), fuzzyIndex = (\<lambda>q. []),
       fuzzyIndexLoose = (\<lambda>q. []), namesFuse = (\<lambda>q. []), localeCompare = (\<lambda>a b. 0),
       MAX_CANDIDATES = 2000, MAX_BRUTE_FORCE = 5000,
       profiles = fst (loadIndexFrom plainURL cat), maps = snd (loadIndexFrom plainURL cat) \<rparr>"







text \<open>
  Eleven records with the same short phone, and a request by that phone for the second
  page with a page size of five and a half.
\<close>

definition elevenSites :: "Profile list" where
  "elevenSites = replicate 11 shortPhoneProfile"

definition halfPageBody :: Body where
  "halfPageBody = (phoneBody ''5551212'')\<lparr> b_page := Some (Num 2), b_perPage := Some (Num (11 / 2)) \<rparr>"

section \<open>Notions used to state the properties\<close>



text \<open>
  The Levenshtein distance by its recurrence: \<open>lev a b i j\<close> is the distance between the
  first \<open>i\<close> characters of \<open>a\<close> and the first \<open>j\<close> characters of \<open>b\<close>.
\<close>

fun lev :: "'a list \<Rightarrow> 'a list \<Rightarrow> nat \<Rightarrow> nat \<Rightarrow> nat" where
  "lev a b 0 j = j"
| "lev a b (Suc i) 0 = Suc i"
| "lev a b (Suc i) (Suc j) =
     min (lev a b i (Suc j) + 1)
         (min (lev a b (Suc i) j + 1) (lev a b i j + (if a ! i = b ! j then 0 else 1)))"

definition levenshtein :: "'a list \<Rightarrow> 'a list \<Rightarrow> nat" where
  "levenshtein a b = lev a b (length a) (length b)"

text \<open>The Jaccard similarity of two token sets and the edit-distance ratio of two strings.\<close>

definition jaccardIndex :: "string list \<Rightarrow> string list \<Rightarrow> rat" where
  "jaccardIndex a b = of_nat (card (set a \<inter> set b)) / of_nat (card (set a \<union> set b))"

definition editRatio :: "string \<Rightarrow> string \<Rightarrow> rat" where
  "editRatio a b =
     (if a = [] \<and> b = [] then 1
      else 1 - of_nat (levenshtein a b) / of_nat (max (length a) (length b)))"

text \<open>
  The contribution of each signal to the score of a request against a record, in the
  words of the scoring table: the canonical forms of the query are those of the fields
  that are present.
\<close>

definition queryCanonSite :: "url_parser \<Rightarrow> Body \<Rightarrow> string" where
  "queryCanonSite URL body =
     (if truthy (b_website body) then canonicalUrl URL (orEmpty (b_website body)) else [])"

definition queryNameNorm :: "Body \<Rightarrow> string" where
  "queryNameNorm body = (if truthy (b_name body) then normalizeText (orEmpty (b_name body)) else [])"

definition queryDomainTokens :: "url_parser \<Rightarrow> Body \<Rightarrow> string list" where
  "queryDomainTokens URL body =
     (if truthy (b_website body) then domainTokens (extractHost URL (orEmpty (b_website body))) else [])"

definition websitePoints :: "url_parser \<Rightarrow> Body \<Rightarrow> AugProfile \<Rightarrow> rat" where
  "websitePoints URL body c =
     (if queryCanonSite URL body \<noteq> [] \<and> queryCanonSite URL body = aug_canonSite c then 5 else 0)"

definition namePoints :: "Body \<Rightarrow> AugProfile \<Rightarrow> rat" where
  "namePoints body c =
     (if queryNameNorm body \<noteq> [] \<and> aug_nameNorm c \<noteq> []
      then (if queryNameNorm body = aug_nameNorm c then 3
            else jaccardPoints (jaccardIndex (nameTokens (queryNameNorm body)) (aug_nameTokens c))
                 + levPoints (editRatio (queryNameNorm body) (aug_nameNorm c)))
      else 0)"

definition domainTokenPoints :: "url_parser \<Rightarrow> Body \<Rightarrow> AugProfile \<Rightarrow> rat" where
  "domainTokenPoints URL body c =
     domainPoints (jaccardIndex (queryDomainTokens URL body) (aug_domainTokens c))"

definition phonePoints :: "Body \<Rightarrow> AugProfile \<Rightarrow> rat" where
  "phonePoints body c =
     (if truthy (b_phone body) \<and> last10 (orEmpty (b_phone body)) \<in> set (aug_last10Phones c) then 3
      else 0)"

definition facebookPoints :: "url_parser \<Rightarrow> Body \<Rightarrow> AugProfile \<Rightarrow> rat" where
  "facebookPoints URL body c =
     (if truthy (b_facebook body)
         \<and> canonicalFacebook URL (orEmpty (b_facebook body)) \<in> set (aug_fbHandles c) then 4
      else 0)"

text \<open>A record whose website has no host, and a record whose name is blank.\<close>

definition hostlessProfile :: Profile where
  "hostlessProfile = siteProfile ''https://''"

definition blankNameProfile :: Profile where
  "blankNameProfile = (siteProfile ''https://acme.com'')\<lparr> name := Some '' '' \<rparr>"

text \<open>
  The invariant of the edit-distance table: it has its shape, and the first row, the
  first column, the rows before \<open>k\<close> and the cells of row \<open>k\<close> before column \<open>l\<close>
  hold the distances of the prefixes.
\<close>

definition wf_table :: "nat \<Rightarrow> nat \<Rightarrow> nat list list \<Rightarrow> bool" where
  "wf_table m n dp = (length dp = m + 1 \<and> (\<forall>i\<le>m. length (dp ! i) = n + 1))"

definition filled :: "'a list \<Rightarrow> 'a list \<Rightarrow> nat \<Rightarrow> nat \<Rightarrow> nat \<Rightarrow> nat \<Rightarrow> nat list list \<Rightarrow> bool" where
  "filled a b m n k l dp =
     (wf_table m n dp \<and>
      (\<forall>i\<le>m. \<forall>j\<le>n. (i = 0 \<or> j = 0 \<or> i < k \<or> (i = k \<and> j < l)) \<longrightarrow> dp ! i ! j = lev a b i j))"









section \<open>Properties\<close>

subsection \<open>Phone keys\<close>

lemma last10_alt: "last10 s = rev (take 10 (rev (filter isDigit s)))"
  by (simp add: last10_def digits_def Let_def take_rev)

text \<open>
  Claim C7. \<open>phoneKey\<close> (\<open>last10\<close>) strips every non-digit character and keeps the last ten
  digits; the three spellings \<open>+1 (415) 555-1212\<close>, \<open>14155551212\<close> and \<open>4155551212\<close> of
  one number all get the key \<open>4155551212\<close>.
\<close>

theorem last10_collision_tolerance:
  "last10 ''+1 (415) 555-1212'' = ''4155551212''
   \<and> last10 ''14155551212'' = ''4155551212''
   \<and> last10 ''4155551212'' = ''4155551212''
   \<and> (\<forall>s. last10 s = rev (take 10 (rev (filter isDigit s))))"
  by (simp add: last10_alt isDigit_def)

lemma length_last10: "length (last10 s) = min 10 (length (digits s))"
  by (simp add: last10_def Let_def)

lemma last10_short: "length (digits s) < 10 \<Longrightarrow> last10 s = digits s"
  by (simp add: last10_def Let_def)

lemma set_newSet [simp]: "set (newSet xs) = set xs"
  by (simp add: newSet_def)

lemma short_key_in_record:
  assumes "length (digits raw) < 10"
  shows "last10 raw \<in> set (aug_last10Phones (augment URL i prof))
         \<longleftrightarrow> digits raw \<noteq> [] \<and> (\<exists>p\<in>set (orNil (phones prof)). digits p = digits raw)"
proof -
  have eq: "last10 p = digits raw \<longleftrightarrow> digits p = digits raw" for p
  proof
    assume h: "last10 p = digits raw"
    then have "length (last10 p) < 10" using assms by simp
    then have "length (digits p) < 10" by (simp add: length_last10)
    then show "digits p = digits raw" using h by (simp add: last10_short)
  next
    assume h: "digits p = digits raw"
    then show "last10 p = digits raw" using assms by (simp add: last10_short)
  qed
  have a: "last10 raw = digits raw" using assms by (rule last10_short)
  have st: "set (aug_last10Phones (augment URL i prof))
            = {k \<in> last10 ` set (orNil (phones prof)). k \<noteq> []}"
    by (auto simp: augment_def Let_def AugProfile.defs Profile.defs)
  have "last10 raw \<in> set (aug_last10Phones (augment URL i prof))
        \<longleftrightarrow> digits raw \<noteq> [] \<and> (\<exists>p\<in>set (orNil (phones prof)). last10 p = digits raw)"
    unfolding st a by (auto simp: image_iff) (metis)
  then show ?thesis by (simp add: eq)
qed

text \<open>
  Claim C5, as stated: a phone with fewer than ten digits gives a key that equals no
  record's phone key and never earns the phone points. It fails: the feature builder
  keeps short keys too, so the seven digits \<open>5551212\<close> of a query meet the key of the
  record phone \<open>555-1212\<close>, and the candidate gets the 3 points, also through the endpoint.
\<close>

theorem short_phone_key_collides:
  "length (digits ''5551212'') < 10
   \<and> last10 ''5551212'' \<in> set (aug_last10Phones (augment plainURL 0 shortPhoneProfile))
   \<and> fastScore (precompute plainURL (phoneBody ''5551212'')) (augment plainURL 0 shortPhoneProfile) = 3
   \<and> map (\<lambda>s. (idx s, score s))
        (candidates (projr (match (silentEngine [shortPhoneProfile]) (phoneBody ''5551212''))))
      = [(0, 3)]"
  by code_simp

text \<open>
  Claim C5, amended: a phone with fewer than ten digits has all its digits as key; this
  key never equals the key of a phone with ten or more digits; a phone-only query with
  such a number earns the 3 points from a record exactly when the number has a digit
  and the record lists a phone with the same digits, and earns nothing otherwise.
\<close>

theorem short_phone_key:
  assumes "length (digits raw) < 10"
  shows "last10 raw = digits raw
     \<and> (\<forall>p. 10 \<le> length (digits p) \<longrightarrow> last10 raw \<noteq> last10 p)
     \<and> fastScore (precompute URL (phoneBody raw)) (augment URL i prof)
         = (if digits raw \<noteq> [] \<and> (\<exists>p\<in>set (orNil (phones prof)). digits p = digits raw)
            then 3 else 0)"
proof -
  have a: "last10 raw = digits raw" using assms by (rule last10_short)
  have b: "last10 raw \<noteq> last10 p" if "10 \<le> length (digits p)" for p
  proof
    assume "last10 raw = last10 p"
    then have "length (last10 raw) = length (last10 p)" by simp
    then show False using that assms by (simp add: length_last10)
  qed
  have raw: "digits raw \<noteq> [] \<Longrightarrow> raw \<noteq> []" by (auto simp: digits_def)
  have c: "fastScore (precompute URL (phoneBody raw)) (augment URL i prof)
         = (if digits raw \<noteq> [] \<and> last10 raw \<in> set (aug_last10Phones (augment URL i prof))
            then 3 else 0)"
    using raw
    by (auto simp: fastScore_def precompute_def phoneBody_def emptyBody_def truthy_def
        orEmpty_def Let_def a digits_def)
  show ?thesis using a b c short_key_in_record[OF assms] by simp
qed

theorem short_phone_key_witness:
  "length (digits ''12345'') < 10 \<and> last10 ''12345'' = digits ''12345''
   \<and> fastScore (precompute plainURL (phoneBody ''12345'')) (augment plainURL 0 shortPhoneProfile) = 0"
proof -
  have h: "length (digits ''12345'') < 10" by code_simp
  have e: "\<not> (\<exists>p\<in>set (orNil (phones shortPhoneProfile)). digits p = digits ''12345'')"
    by code_simp
  show ?thesis using short_phone_key [OF h, of plainURL 0 shortPhoneProfile] h e by simp
qed

subsection \<open>Scheme-typo repair\<close>

lemma plainURL_acorn:
  "plainURL ''https://acornlawpc.com/'' = Some \<lparr> hostname = ''acornlawpc.com'', pathname = ''/'' \<rparr>"
  by code_simp

lemma preSanitize_acorn: "preSanitizeUrl ''https://https//acornlawpc.com/'' = ''https://acornlawpc.com/''"
  by code_simp

lemma withScheme_acorn: "withScheme ''https://acornlawpc.com/'' = ''https://acornlawpc.com/''"
  by code_simp

lemma lower_acorn: "replacePrefix ''www.'' [] (toLowerCase ''acornlawpc.com'') = ''acornlawpc.com''"
  by code_simp

text \<open>
  Claim C9. \<open>canonicalWebsite\<close> (\<open>canonicalUrl\<close>) of \<open>https://https//acornlawpc.com/\<close> is
  \<open>acornlawpc.com\<close>: the doubled scheme without colon is repaired before the URL is
  parsed, the host is kept and the trailing slash is dropped. The URL parser is any
  parser that treats plain addresses as the platform does.
\<close>

theorem canonicalUrl_scheme_typo_repair:
  assumes "parsesPlain URL"
  shows "preSanitizeUrl ''https://https//acornlawpc.com/'' = ''https://acornlawpc.com/''
         \<and> canonicalUrl URL ''https://https//acornlawpc.com/'' = ''acornlawpc.com''"
proof -
  have "URL ''https://acornlawpc.com/'' = Some \<lparr> hostname = ''acornlawpc.com'', pathname = ''/'' \<rparr>"
    using assms plainURL_acorn unfolding parsesPlain_def by (metis option.distinct(1))
  then show ?thesis
    by (simp add: canonicalUrl_def preSanitize_acorn withScheme_acorn lower_acorn)
qed

theorem canonicalUrl_scheme_typo_repair_witness:
  "parsesPlain plainURL
   \<and> canonicalUrl plainURL ''https://https//acornlawpc.com/'' = ''acornlawpc.com''"
  using canonicalUrl_scheme_typo_repair [of plainURL] by (simp add: parsesPlain_def)

subsection \<open>The sort of the ranker\<close>

lemma set_insertBy [simp]: "set (insertBy cmp x ys) = insert x (set ys)"
  by (induction ys) auto

lemma mset_insertBy [simp]: "mset (insertBy cmp x ys) = add_mset x (mset ys)"
  by (induction ys) auto

lemma mset_sortBy [simp]: "mset (sortBy cmp xs) = mset xs"
  by (induction xs) (auto simp: sortBy_def)

lemma set_sortBy [simp]: "set (sortBy cmp xs) = set xs"
  by (induction xs) (auto simp: sortBy_def)

lemma length_sortBy [simp]: "length (sortBy cmp xs) = length xs"
  using mset_sortBy [of cmp xs] by (metis size_mset)










subsection \<open>The safety net\<close>








subsection \<open>The edit-distance table\<close>

lemma lev_col0 [simp]: "lev a b i 0 = i"
  by (cases i) auto

lemma fold_upt_invariant:
  assumes "P lo s" and "lo \<le> hi"
    and "\<And>i s. lo \<le> i \<Longrightarrow> i < hi \<Longrightarrow> P i s \<Longrightarrow> P (Suc i) (f i s)"
  shows "P hi (fold f [lo..<hi] s)"
  using assms(2,3)
proof (induction hi)
  case 0
  then show ?case using assms(1) by simp
next
  case (Suc hi)
  show ?case
  proof (cases "lo = Suc hi")
    case True
    then show ?thesis using assms(1) by simp
  next
    case False
    then have le: "lo \<le> hi" using Suc.prems(1) by simp
    have "P hi (fold f [lo..<hi] s)"
      using Suc.IH[OF le] Suc.prems(2) by simp
    then have "P (Suc hi) (f hi (fold f [lo..<hi] s))"
      using Suc.prems(2)[of hi] le by simp
    then show ?thesis using le by simp
  qed
qed

lemma wf_set2: "wf_table m n dp \<Longrightarrow> wf_table m n (set2 dp i j v)"
  by (cases "i < length dp") (auto simp: wf_table_def set2_def nth_list_update)

lemma nth_set2:
  "wf_table m n dp \<Longrightarrow> i \<le> m \<Longrightarrow> j \<le> n \<Longrightarrow> i' \<le> m \<Longrightarrow> j' \<le> n \<Longrightarrow>
   set2 dp i j v ! i' ! j' = (if i' = i \<and> j' = j then v else dp ! i' ! j')"
  by (auto simp: wf_table_def set2_def nth_list_update)

lemma init_col:
  "wf_table m n dp \<Longrightarrow>
   wf_table m n (fold (\<lambda>i dp. set2 dp i 0 i) [0..<m + 1] dp)
   \<and> (\<forall>i\<le>m. fold (\<lambda>i dp. set2 dp i 0 i) [0..<m + 1] dp ! i ! 0 = i)"
proof -
  assume wf: "wf_table m n dp"
  let ?P = "\<lambda>k s. wf_table m n s \<and> (\<forall>i<k. i \<le> m \<longrightarrow> s ! i ! 0 = i)"
  have "?P (m + 1) (fold (\<lambda>i dp. set2 dp i 0 i) [0..<m + 1] dp)"
  proof (rule fold_upt_invariant[where P = ?P])
    show "?P 0 dp" using wf by simp
    show "0 \<le> m + 1" by simp
    fix i s assume "0 \<le> i" "i < m + 1" "?P i s"
    then show "?P (Suc i) (set2 s i 0 i)"
      by (auto simp: wf_set2 nth_set2 less_Suc_eq)
  qed
  then show ?thesis by auto
qed

lemma init_row:
  "wf_table m n dp \<Longrightarrow> (\<forall>i\<le>m. dp ! i ! 0 = i) \<Longrightarrow>
   wf_table m n (fold (\<lambda>j dp. set2 dp 0 j j) [0..<n + 1] dp)
   \<and> (\<forall>i\<le>m. fold (\<lambda>j dp. set2 dp 0 j j) [0..<n + 1] dp ! i ! 0 = i)
   \<and> (\<forall>j\<le>n. fold (\<lambda>j dp. set2 dp 0 j j) [0..<n + 1] dp ! 0 ! j = j)"
proof -
  assume wf: "wf_table m n dp" and col: "\<forall>i\<le>m. dp ! i ! 0 = i"
  let ?P = "\<lambda>k s. wf_table m n s \<and> (\<forall>i\<le>m. s ! i ! 0 = i) \<and> (\<forall>j<k. j \<le> n \<longrightarrow> s ! 0 ! j = j)"
  have "?P (n + 1) (fold (\<lambda>j dp. set2 dp 0 j j) [0..<n + 1] dp)"
  proof (rule fold_upt_invariant[where P = ?P])
    show "?P 0 dp" using wf col by simp
    show "0 \<le> n + 1" by simp
    fix j s assume "0 \<le> j" "j < n + 1" "?P j s"
    then show "?P (Suc j) (set2 s 0 j j)"
      by (auto simp: wf_set2 nth_set2 less_Suc_eq)
  qed
  then show ?thesis by auto
qed

lemma lev_cell_step:
  assumes "filled a b m n k l dp" "1 \<le> k" "k \<le> m" "1 \<le> l" "l \<le> n"
  shows "filled a b m n k (Suc l) (lev_cell a b k l dp)"
proof -
  obtain k' l' where k: "k = Suc k'" and l: "l = Suc l'"
    using assms(2,4) by (metis One_nat_def Suc_le_D)
  have wf: "wf_table m n dp" using assms(1) by (simp add: filled_def)
  have g: "\<And>i j. i \<le> m \<Longrightarrow> j \<le> n \<Longrightarrow> (i = 0 \<or> j = 0 \<or> i < k \<or> (i = k \<and> j < l)) \<Longrightarrow> dp ! i ! j = lev a b i j"
    using assms(1) unfolding filled_def by blast
  have up: "dp ! k' ! l = lev a b k' l" using g[of k' l] assms k by simp
  have left: "dp ! k ! l' = lev a b k l'" using g[of k l'] assms l by simp
  have diag: "dp ! k' ! l' = lev a b k' l'" using g[of k' l'] assms k l by simp
  have val: "lev_cell a b k l dp = set2 dp k l (lev a b k l)"
    using up left diag by (simp add: lev_cell_def k l Let_def)
  show ?thesis
    unfolding filled_def val
    using wf g assms(3,5) by (auto simp: wf_set2 nth_set2 less_Suc_eq)
qed

lemma lev_row:
  assumes "filled a b m n k 1 dp" "1 \<le> k" "k \<le> m"
  shows "filled a b m n (Suc k) 1 (fold (\<lambda>j dp. lev_cell a b k j dp) [1..<n + 1] dp)"
proof -
  have "filled a b m n k (n + 1) (fold (\<lambda>j dp. lev_cell a b k j dp) [1..<n + 1] dp)"
  proof (rule fold_upt_invariant[where P = "\<lambda>l s. filled a b m n k l s"])
    show "filled a b m n k 1 dp" by fact
    show "1 \<le> n + 1" by simp
    fix l s assume "1 \<le> l" "l < n + 1" "filled a b m n k l s"
    then show "filled a b m n k (Suc l) (lev_cell a b k l s)"
      using lev_cell_step[of a b m n k l s] assms(2,3) by simp
  qed
  then have F: "filled a b m n k (n + 1) (fold (\<lambda>j dp. lev_cell a b k j dp) [1..<n + 1] dp)" .
  show ?thesis
    unfolding filled_def
  proof (intro conjI allI impI)
    show "wf_table m n (fold (\<lambda>j dp. lev_cell a b k j dp) [1..<n + 1] dp)"
      using F unfolding filled_def by blast
    fix i j
    assume ij: "i \<le> m" "j \<le> n" and c: "i = 0 \<or> j = 0 \<or> i < Suc k \<or> i = Suc k \<and> j < 1"
    from c ij have "i = 0 \<or> j = 0 \<or> i < k \<or> (i = k \<and> j < n + 1)" by auto
    then show "fold (\<lambda>j dp. lev_cell a b k j dp) [1..<n + 1] dp ! i ! j = lev a b i j"
      using F ij unfolding filled_def by blast
  qed
qed

lemma lev_table_filled:
  "filled a b (length a) (length b) (length a + 1) 1 (lev_table a b)"
proof -
  let ?m = "length a" and ?n = "length b"
  let ?dp0 = "replicate (?m + 1) (replicate (?n + 1) (0::nat))"
  let ?dp1 = "fold (\<lambda>i dp. set2 dp i 0 i) [0..<?m + 1] ?dp0"
  let ?dp2 = "fold (\<lambda>j dp. set2 dp 0 j j) [0..<?n + 1] ?dp1"
  have wf0: "wf_table ?m ?n ?dp0"
    unfolding wf_table_def by (auto simp del: replicate.simps simp add: nth_replicate)
  note c = init_col[OF wf0]
  have r: "wf_table ?m ?n ?dp2 \<and> (\<forall>i\<le>?m. ?dp2 ! i ! 0 = i) \<and> (\<forall>j\<le>?n. ?dp2 ! 0 ! j = j)"
    using init_row[of ?m ?n ?dp1] c by blast
  have f1: "filled a b ?m ?n 1 1 ?dp2"
    using r by (auto simp: filled_def)
  have "filled a b ?m ?n (?m + 1) 1
          (fold (\<lambda>i dp. fold (\<lambda>j dp. lev_cell a b i j dp) [1..<?n + 1] dp) [1..<?m + 1] ?dp2)"
  proof (rule fold_upt_invariant[where P = "\<lambda>k s. filled a b ?m ?n k 1 s"])
    show "filled a b ?m ?n 1 1 ?dp2" by fact
    show "1 \<le> ?m + 1" by simp
    fix k s assume "1 \<le> k" "k < ?m + 1" "filled a b ?m ?n k 1 s"
    then show "filled a b ?m ?n (Suc k) 1 (fold (\<lambda>j dp. lev_cell a b k j dp) [1..<?n + 1] s)"
      using lev_row[of a b ?m ?n k s] by simp
  qed
  then show ?thesis by (simp add: lev_table_def Let_def)
qed

lemma lev_table_correct:
  "i \<le> length a \<Longrightarrow> j \<le> length b \<Longrightarrow> lev_table a b ! i ! j = lev a b i j"
  using lev_table_filled[of a b] by (auto simp: filled_def)

lemma levenshteinRatio_spec:
  "levenshteinRatio a b =
     (if a = [] \<and> b = [] then 1
      else 1 - of_nat (levenshtein a b) / of_nat (max (length a) (length b)))"
  by (auto simp: levenshteinRatio_def Let_def lev_table_correct levenshtein_def max_def)

lemma levenshteinRatio_empty_right: "a \<noteq> [] \<Longrightarrow> levenshteinRatio a [] = 0"
  by (simp add: levenshteinRatio_spec levenshtein_def)

subsection \<open>The score as a sum of signals\<close>

lemma jaccard_spec: "jaccard a b = jaccardIndex a b"
proof (cases "a = [] \<or> b = []")
  case True
  then show ?thesis by (auto simp: jaccard_def jaccardIndex_def)
next
  case False
  have i: "length (filter (\<lambda>x. x \<in> set b) (remdups a)) = card (set a \<inter> set b)"
  proof -
    have d: "distinct (filter (\<lambda>x. x \<in> set b) (remdups a))" by simp
    have s: "set (filter (\<lambda>x. x \<in> set b) (remdups a)) = set a \<inter> set b" by auto
    show ?thesis using distinct_card[OF d] unfolding s by simp
  qed
  have u: "card (set a) + card (set b) - card (set a \<inter> set b) = card (set a \<union> set b)"
    using card_Un_Int[of "set a" "set b"] by simp
  show ?thesis
    using False by (simp add: jaccard_def jaccardIndex_def Let_def i length_remdups_card_conv u)
qed

lemma jaccardIndex_empty [simp]: "jaccardIndex [] b = 0" "jaccardIndex a [] = 0"
  by (simp_all add: jaccardIndex_def)

lemma points_zero [simp]: "jaccardPoints 0 = 0" "domainPoints 0 = 0" "levPoints 0 = 0"
  by (simp_all add: jaccardPoints_def domainPoints_def levPoints_def)

lemma levenshteinRatio_editRatio: "levenshteinRatio a b = editRatio a b"
  by (simp add: levenshteinRatio_spec editRatio_def)

lemma aug_fields:
  "aug_canonSite (augment URL i p) = canonicalUrl URL (website p)"
  "aug_nameNorm (augment URL i p) = (if truthy (name p) then normalizeText (orEmpty (name p)) else [])"
  "aug_nameTokens (augment URL i p) =
     (if aug_nameNorm (augment URL i p) \<noteq> [] then nameTokens (aug_nameNorm (augment URL i p)) else [])"
  "name (augment URL i p) = name p"
  "[] \<notin> set (aug_last10Phones (augment URL i p))"
  "[] \<notin> set (aug_fbHandles (augment URL i p))"
  by (simp_all add: augment_def Let_def AugProfile.defs Profile.defs)


text \<open>
  Claim C1, as stated: the score is the sum of the contributions of the signals, among
  them 5 points when the canonical form of the query website equals the canonical site of
  the record, and 3 points when the normalized names are equal. It fails where the
  canonical or normalized forms are empty: the scorer skips an empty form. The website
  \<open>https://\<close> of a query and of a record both have the empty canonical form, and a
  blank name of a query and of a record both have the empty normalized name; the forms
  are equal and the score is 0.
\<close>

theorem equal_empty_forms_score_nothing:
  "truthy (b_website (websiteBody ''https://''))
   \<and> canonicalUrl plainURL ''https://'' = aug_canonSite (augment plainURL 0 hostlessProfile)
   \<and> fastScore (precompute plainURL (websiteBody ''https://'')) (augment plainURL 0 hostlessProfile) = 0
   \<and> truthy (b_name (nameBody '' ''))
   \<and> normalizeText '' '' = aug_nameNorm (augment plainURL 0 blankNameProfile)
   \<and> fastScore (precompute plainURL (nameBody '' '')) (augment plainURL 0 blankNameProfile) = 0"
  by code_simp

text \<open>
  Claim C1, amended: for every query and every augmented record the score is the sum of
  five independent contributions: 5 if the canonical form of the query website is not
  empty and equals the canonical site of the record; for the name, when the normalized
  names of query and record are both not empty, 3 if they are equal and otherwise the
  token-Jaccard bucket (2, 1.5, 1, 0.5 from 0.8, 0.5, 0.3, 0.25) plus the edit-ratio
  bucket (1.5 from 0.9, 1 from 0.8); the domain-token Jaccard bucket (2, 1.5, 1, 0.5 from
  0.8, 0.6, 0.4, 0.25); 3 if the phone key of the query is in the phone-key set of the
  record; 4 if the canonical facebook handle of the query is among the handles of the
  record. Jaccard is the size of the intersection over the size of the union of the
  token sets, and the edit ratio is 1 minus the Levenshtein distance over the greater
  length, 1 for two empty strings.
\<close>

theorem score_is_sum_of_signals:
  "fastScore (precompute URL body) (augment URL i p)
   = websitePoints URL body (augment URL i p) + namePoints body (augment URL i p)
     + domainTokenPoints URL body (augment URL i p) + phonePoints body (augment URL i p)
     + facebookPoints URL body (augment URL i p)"
proof -
  let ?c = "augment URL i p"
  have e1: "[] \<notin> set (aug_last10Phones ?c)" and e2: "[] \<notin> set (aug_fbHandles ?c)"
    by (rule aug_fields)+
  have ph: "(pre_phone10 (precompute URL body) \<noteq> [] \<and> pre_phone10 (precompute URL body) \<in> set (aug_last10Phones ?c))
            \<longleftrightarrow> (truthy (b_phone body) \<and> last10 (orEmpty (b_phone body)) \<in> set (aug_last10Phones ?c))"
    using e1 by (auto simp: precompute_def)
  have fb: "(pre_fbHandle (precompute URL body) \<noteq> [] \<and> pre_fbHandle (precompute URL body) \<in> set (aug_fbHandles ?c))
            \<longleftrightarrow> (truthy (b_facebook body) \<and> canonicalFacebook URL (orEmpty (b_facebook body)) \<in> set (aug_fbHandles ?c))"
    using e2 by (auto simp: precompute_def)
  have dom: "(if pre_domainTokens (precompute URL body) \<noteq> [] \<and> aug_domainTokens ?c \<noteq> []
              then domainPoints (jaccard (pre_domainTokens (precompute URL body)) (aug_domainTokens ?c)) else 0)
            = domainTokenPoints URL body ?c"
    by (auto simp: domainTokenPoints_def queryDomainTokens_def precompute_def jaccard_spec)
  have nm: "(if pre_nameNorm (precompute URL body) \<noteq> [] \<and> aug_nameNorm ?c \<noteq> []
             then (if pre_nameNorm (precompute URL body) = aug_nameNorm ?c then 3
                   else jaccardPoints (jaccard (pre_nameTokens (precompute URL body)) (aug_nameTokens ?c))
                        + levPoints (levenshteinRatio (pre_nameNorm (precompute URL body)) (aug_nameNorm ?c)))
             else 0) = namePoints body ?c"
    by (auto simp: namePoints_def queryNameNorm_def precompute_def jaccard_spec levenshteinRatio_editRatio)
  have ws: "(if pre_canonSite (precompute URL body) \<noteq> [] \<and> pre_canonSite (precompute URL body) = aug_canonSite ?c
             then 5 else 0) = websitePoints URL body ?c"
    by (auto simp: websitePoints_def queryCanonSite_def precompute_def)
  have "fastScore (precompute URL body) ?c =
      (if pre_canonSite (precompute URL body) \<noteq> [] \<and> pre_canonSite (precompute URL body) = aug_canonSite ?c
             then 5 else 0)
    + (if pre_nameNorm (precompute URL body) \<noteq> [] \<and> aug_nameNorm ?c \<noteq> []
             then (if pre_nameNorm (precompute URL body) = aug_nameNorm ?c then 3
                   else jaccardPoints (jaccard (pre_nameTokens (precompute URL body)) (aug_nameTokens ?c))
                        + levPoints (levenshteinRatio (pre_nameNorm (precompute URL body)) (aug_nameNorm ?c)))
             else 0)
    + (if pre_domainTokens (precompute URL body) \<noteq> [] \<and> aug_domainTokens ?c \<noteq> []
              then domainPoints (jaccard (pre_domainTokens (precompute URL body)) (aug_domainTokens ?c)) else 0)
    + (if pre_phone10 (precompute URL body) \<noteq> [] \<and> pre_phone10 (precompute URL body) \<in> set (aug_last10Phones ?c) then 3 else 0)
    + (if pre_fbHandle (precompute URL body) \<noteq> [] \<and> pre_fbHandle (precompute URL body) \<in> set (aug_fbHandles ?c) then 4 else 0)"
    unfolding fastScore_def Let_def by simp
  then show ?thesis
    unfolding ws nm dom ph fb by (simp add: phonePoints_def facebookPoints_def)
qed

subsection \<open>The two scorers\<close>

lemma isWhiteSpace_toLowerCase_char [simp]: "isWhiteSpace (toLowerCase_char c) = isWhiteSpace c"
  by (cases c) (simp add: isWhiteSpace_def)

lemma trim_Nil_iff: "trim t = [] \<longleftrightarrow> (\<forall>c\<in>set t. isWhiteSpace c)"
proof
  assume "trim t = []"
  then have a: "\<forall>x\<in>set (dropWhile isWhiteSpace t). isWhiteSpace x"
    by (simp add: trim_def dropWhile_eq_Nil_conv)
  have "dropWhile isWhiteSpace t = []"
  proof (rule ccontr)
    assume ne: "dropWhile isWhiteSpace t \<noteq> []"
    then have "\<not> isWhiteSpace (hd (dropWhile isWhiteSpace t))" by (rule hd_dropWhile)
    moreover have "hd (dropWhile isWhiteSpace t) \<in> set (dropWhile isWhiteSpace t)"
      using ne by simp
    ultimately show False using a by blast
  qed
  then show "\<forall>c\<in>set t. isWhiteSpace c" by (metis dropWhile_eq_Nil_conv)
next
  assume "\<forall>c\<in>set t. isWhiteSpace c"
  then show "trim t = []" by (auto simp: trim_def dest: set_dropWhileD)
qed

lemma in_dropWhile: "x \<in> set xs \<Longrightarrow> \<not> P x \<Longrightarrow> x \<in> set (dropWhile P xs)"
  by (induction xs) auto

lemma in_trim: "c \<in> set s \<Longrightarrow> \<not> isWhiteSpace c \<Longrightarrow> c \<in> set (trim s)"
  by (simp add: trim_def in_dropWhile)

lemma normalizeText_trimmed: "trim s \<noteq> [] \<Longrightarrow> normalizeText (trim s) \<noteq> []"
proof -
  assume "trim s \<noteq> []"
  then obtain c where c: "c \<in> set s" "\<not> isWhiteSpace c" by (auto simp: trim_Nil_iff)
  then have "c \<in> set (trim s)" by (rule in_trim)
  then have "toLowerCase_char c \<in> set (toLowerCase (trim s))" by (simp add: toLowerCase_def)
  moreover have "\<not> isWhiteSpace (toLowerCase_char c)" using c by simp
  ultimately have "\<not> (\<forall>x\<in>set (toLowerCase (trim s)). isWhiteSpace x)" by blast
  then show ?thesis by (simp add: normalizeText_def trim_Nil_iff)
qed


lemma QuerySchema_name:
  assumes "QuerySchema raw = Inr body"
  shows "truthy (b_name body) \<longrightarrow> normalizeText (orEmpty (b_name body)) \<noteq> []"
proof -
  have "b_name body = map_option trim (b_name raw)"
    using assms
    by (auto simp: QuerySchema_def limitStr_def split: sum.splits option.splits if_splits)
  then show ?thesis
    by (cases "b_name raw") (auto simp: truthy_def orEmpty_def normalizeText_trimmed)
qed






subsection \<open>Pagination\<close>

lemma orDefault_cases:
  "orDefault x d = Num d \<or> orDefault x d = PosInf \<or> orDefault x d = NegInf
   \<or> (\<exists>r. r \<noteq> 0 \<and> orDefault x d = Num r)"
  by (cases x; simp add: orDefault_def) (metis jsnum.exhaust)

lemma perPageOf_range: "\<exists>r. perPageOf body = Num r \<and> 5 \<le> r \<and> r \<le> 50"
  using orDefault_cases[of "b_perPage body" 10]
  by (auto simp: perPageOf_def)

lemma pageOf_cases: "pageOf body = PosInf \<or> (\<exists>r. pageOf body = Num r \<and> 1 \<le> r)"
  using orDefault_cases[of "b_page body" 1]
  by (auto simp: pageOf_def)

lemma pageClamped_range:
  assumes "1 \<le> tp"
  shows "1 \<le> pageClampedOf (pageOf body) tp \<and> pageClampedOf (pageOf body) tp \<le> of_nat tp"
  using pageOf_cases[of body] assms
  by (auto simp: pageClampedOf_def finite_of_def)

lemma totalPages_ge1: "1 \<le> totalPagesOf n pp"
  by (simp add: totalPagesOf_def)




subsection \<open>The cascade never leaves a query without candidates\<close>

lemma set_addAll [simp]: "set (addAll cand ids) = set cand \<union> set ids"
  unfolding addAll_def by (induction ids arbitrary: cand) auto





lemma scoredAt_profile [simp]: "profile (scoredAt pre i c) \<noteq> None"
  by (simp add: scoredAt_def)






lemma scoredAt_profile_Some [simp]: "profile (scoredAt pre i c) = Some (Profile.truncate c)"
  by (simp add: scoredAt_def)


lemma sortBy_eq_Nil [simp]: "sortBy cmp xs = [] \<longleftrightarrow> xs = []"
  by (metis length_0_conv length_sortBy)










lemma aug_id_augment [simp]: "aug_id (augment URL i p) = i"
  by (simp add: augment_def Let_def AugProfile.defs Profile.defs)

lemma length_loadProfiles [simp]: "length (loadProfiles URL base) = length base"
  by (simp add: loadProfiles_def)








subsection \<open>Pagination invariants\<close>

lemma pageSlice_nat:
  "0 \<le> pp \<Longrightarrow> pageSlice list (of_nat (Suc k)) pp
   = take (nat \<lfloor>of_nat (Suc k) * pp\<rfloor> - nat \<lfloor>of_nat k * pp\<rfloor>) (drop (nat \<lfloor>of_nat k * pp\<rfloor>) list)"
  by (simp add: pageSlice_def slice_def Let_def algebra_simps)

lemma concat_chunks:
  assumes "\<And>k. b k \<le> b (Suc k)" "b 0 = 0"
  shows "concat (map (\<lambda>k. take (b (Suc k) - b k) (drop (b k) xs)) [0..<m]) = take (b m) xs"
proof (induction m)
  case 0
  then show ?case using assms(2) by simp
next
  case (Suc m)
  have "take (b (Suc m)) xs = take (b m + (b (Suc m) - b m)) xs" using assms(1)[of m] by simp
  also have "\<dots> = take (b m) xs @ take (b (Suc m) - b m) (drop (b m) xs)" by (rule take_add)
  finally show ?case using Suc by simp
qed

lemma pages_cover:
  assumes "5 \<le> pp"
  shows "concat (map (\<lambda>k. pageSlice list (of_nat (Suc k)) pp) [0..<totalPagesOf (length list) pp]) = list"
proof -
  let ?b = "\<lambda>k. nat \<lfloor>of_nat k * pp\<rfloor>"
  let ?tp = "totalPagesOf (length list) pp"
  have pos: "0 < pp" using assms by simp
  have mono: "\<And>k. ?b k \<le> ?b (Suc k)"
  proof -
    fix k
    have "(of_nat k :: rat) * pp \<le> of_nat (Suc k) * pp" using pos by (simp add: algebra_simps)
    then have "\<lfloor>of_nat k * pp\<rfloor> \<le> \<lfloor>of_nat (Suc k) * pp\<rfloor>" by (rule floor_mono)
    then show "?b k \<le> ?b (Suc k)" by linarith
  qed
  have b0: "?b 0 = 0" by simp
  have "of_nat (length list) / pp \<le> of_int \<lceil>of_nat (length list) / pp\<rceil>" by linarith
  also have "\<dots> \<le> of_nat ?tp" by (simp add: totalPagesOf_def)
  finally have "of_nat (length list) \<le> of_nat ?tp * pp" using pos by (simp add: pos_divide_le_eq)
  then have "int (length list) \<le> \<lfloor>of_nat ?tp * pp\<rfloor>" by linarith
  then have cover: "length list \<le> ?b ?tp" by linarith
  have "concat (map (\<lambda>k. pageSlice list (of_nat (Suc k)) pp) [0..<?tp])
        = concat (map (\<lambda>k. take (?b (Suc k) - ?b k) (drop (?b k) list)) [0..<?tp])"
    using pos by (simp only: pageSlice_nat[OF less_imp_le[OF pos]])
  also have "\<dots> = take (?b ?tp) list" using mono b0 by (rule concat_chunks)
  also have "\<dots> = list" using cover by simp
  finally show ?thesis .
qed

lemma length_pageSlice:
  assumes "0 \<le> pp" "1 \<le> pg"
  shows "int (length (pageSlice list pg pp)) \<le> \<lceil>pp\<rceil>"
proof -
  let ?s = "(pg - 1) * pp"
  have s0: "0 \<le> ?s" using assms by simp
  have d: "\<lfloor>?s + pp\<rfloor> - \<lfloor>?s\<rfloor> \<le> \<lceil>pp\<rceil>" by linarith
  have n1: "0 \<le> \<lfloor>?s\<rfloor>" using s0 by simp
  have le: "\<lfloor>?s\<rfloor> \<le> \<lfloor>?s + pp\<rfloor>" using assms(1) by (intro floor_mono) simp
  have n2: "0 \<le> \<lfloor>?s + pp\<rfloor>" using n1 le by linarith
  have "nat \<lfloor>?s\<rfloor> \<le> nat \<lfloor>?s + pp\<rfloor>" using le by (rule nat_mono)
  then have "int (nat \<lfloor>?s + pp\<rfloor> - nat \<lfloor>?s\<rfloor>) = int (nat \<lfloor>?s + pp\<rfloor>) - int (nat \<lfloor>?s\<rfloor>)"
    by (rule of_nat_diff)
  also have "\<dots> = \<lfloor>?s + pp\<rfloor> - \<lfloor>?s\<rfloor>"
    unfolding int_nat_eq using n1 n2 by (simp only: if_True)
  finally have "int (nat \<lfloor>?s + pp\<rfloor> - nat \<lfloor>?s\<rfloor>) = \<lfloor>?s + pp\<rfloor> - \<lfloor>?s\<rfloor>" .
  then have "int (nat \<lfloor>?s + pp\<rfloor> - nat \<lfloor>?s\<rfloor>) \<le> \<lceil>pp\<rceil>" using d by simp
  moreover have "length (pageSlice list pg pp) \<le> nat \<lfloor>?s + pp\<rfloor> - nat \<lfloor>?s\<rfloor>"
    by (simp add: pageSlice_def slice_def Let_def)
  ultimately show ?thesis by linarith
qed

lemma pagination_invariants:
  "\<exists>pp. perPageOf body = Num pp \<and> 5 \<le> pp \<and> pp \<le> 50
     \<and> perPage (meta (paginate body list)) = pp
     \<and> total (meta (paginate body list)) = length list
     \<and> totalPages (meta (paginate body list)) = max 1 (nat \<lceil>of_nat (length list) / pp\<rceil>)
     \<and> 1 \<le> page (meta (paginate body list))
     \<and> page (meta (paginate body list)) \<le> of_nat (totalPages (meta (paginate body list)))
     \<and> candidates (paginate body list) = pageSlice list (page (meta (paginate body list))) pp
     \<and> int (length (candidates (paginate body list))) \<le> \<lceil>pp\<rceil>
     \<and> (pp \<in> \<int> \<longrightarrow> of_nat (length (candidates (paginate body list))) \<le> pp)
     \<and> concat (map (\<lambda>k. pageSlice list (of_nat (Suc k)) pp) [0..<totalPages (meta (paginate body list))]) = list"
proof -
  obtain pp where pp: "perPageOf body = Num pp" "5 \<le> pp" "pp \<le> 50" using perPageOf_range by blast
  let ?tp = "totalPagesOf (length list) pp"
  let ?pg = "pageClampedOf (pageOf body) ?tp"
  have tp: "1 \<le> ?tp" by (rule totalPages_ge1)
  note r = pageClamped_range[OF tp, of body]
  have m: "meta (paginate body list) = \<lparr> total = length list, totalPages = ?tp, page = ?pg, perPage = pp \<rparr>"
    "candidates (paginate body list) = pageSlice list ?pg pp"
    by (simp_all add: paginate_def Let_def pp finite_of_def)
  have len: "int (length (pageSlice list ?pg pp)) \<le> \<lceil>pp\<rceil>"
    using length_pageSlice[of pp ?pg list] pp r by simp
  have whole: "pp \<in> \<int> \<longrightarrow> of_nat (length (pageSlice list ?pg pp)) \<le> pp"
  proof
    assume "pp \<in> \<int>"
    then obtain z where z: "pp = of_int z" by (auto elim: Ints_cases)
    have "int (length (pageSlice list ?pg pp)) \<le> z" using len z by simp
    then have "(of_int (int (length (pageSlice list ?pg pp))) :: rat) \<le> of_int z" by (simp only: of_int_le_iff)
    then show "of_nat (length (pageSlice list ?pg pp)) \<le> pp" using z by simp
  qed
  show ?thesis
    using pp r len whole pages_cover[OF pp(2), of list]
    by (intro exI[of _ pp]) (simp add: m totalPagesOf_def)
qed

text \<open>
  Claim C8: for every request the page size is clamped into 5 to 50, the number of pages
  is \<open>max(1, ceiling(total / perPage))\<close>, the page number is clamped into 1 to the
  number of pages, the returned page has at most \<open>perPage\<close> entries, and the pages in
  order give the whole list once. \<open>pagination_invariants\<close> shows all of it for a page
  size that is a whole number. A page size with a fraction passes the schema and the
  clamp; the bounds of the slice are truncated one by one, and a page can then hold more
  entries than the page size: with eleven candidates and a page size of 5.5, the second
  page has the six entries at positions 5 to 10.
\<close>

theorem fractional_page_size_overfills:
  "(case match (silentEngine elevenSites) halfPageBody of
      Inl e \<Rightarrow> False
    | Inr resp \<Rightarrow>
        perPage (meta resp) = 11 / 2 \<and> page (meta resp) = 2 \<and> total (meta resp) = 11
        \<and> totalPages (meta resp) = 2 \<and> length (candidates resp) = 6
        \<and> map idx (candidates resp) = [5, 6, 7, 8, 9, 10])"
  by code_simp

subsection \<open>Canonical forms under a second canonicalization\<close>






























end
